theory Spec2Isabelle
  imports Main
begin

section \<open>The storage-to-warehouse load handler of \<^verbatim>\<open>main.py\<close>\<close>

text \<open>
  The module holds two functions: \<^verbatim>\<open>log_event_to_audit_table\<close>, which inserts one
  row into the audit table, and \<^verbatim>\<open>load_data_to_bigquery\<close>, the handler triggered by
  a storage notification. Both talk to the warehouse through one client object. The
  client's methods are not part of the module, so their outcomes are parameters of the
  model: each call either raises or returns a value. The effects of one invocation (log
  lines, load jobs submitted, audit calls, insert calls) are collected in a record that
  the functions pass along and return.
\<close>

subsection \<open>Strings: \<^verbatim>\<open>str.split\<close>, \<^verbatim>\<open>str.replace\<close>, f-string rendering\<close>

text \<open>
  A Python string is modelled as the list of its bytes in UTF-8. The dot, the space and
  the underscore are single bytes that occur in no longer sequence, so cutting at dots
  and replacing spaces act on the bytes as they do on the characters.

  \<^verbatim>\<open>s.split(sep)\<close> with a one-character separator cuts \<open>s\<close> at every occurrence of
  it. The result always has at least one segment, so \<^verbatim>\<open>[0]\<close> on it never raises.
\<close>

fun py_split :: "string \<Rightarrow> char \<Rightarrow> string list" where
  "py_split [] sep = [[]]"
| "py_split (c # cs) sep =
     (if c = sep then [] # py_split cs sep
      else (case py_split cs sep of
              [] \<Rightarrow> [[c]]
            | seg # segs \<Rightarrow> (c # seg) # segs))"

text \<open>\<^verbatim>\<open>s.replace(old, new)\<close> for one-character \<open>old\<close> and \<open>new\<close>.\<close>

fun py_replace :: "string \<Rightarrow> char \<Rightarrow> char \<Rightarrow> string" where
  "py_replace [] old new = []"
| "py_replace (c # cs) old new = (if c = old then new else c) # py_replace cs old new"

text \<open>
  An f-string field \<^verbatim>\<open>{x}\<close> renders a string as itself and \<^verbatim>\<open>None\<close> as the text
  \<^verbatim>\<open>None\<close>.
\<close>

fun fstr :: "string option \<Rightarrow> string" where
  "fstr None = ''None''"
| "fstr (Some s) = s"

subsection \<open>Environment configuration\<close>

type_synonym environ = "string \<rightharpoonup> string"

definition os_getenv :: "environ \<Rightarrow> string \<Rightarrow> string option" where
  "os_getenv env k = env k"

definition PROJECT_ID :: "environ \<Rightarrow> string option" where
  "PROJECT_ID env = os_getenv env ''PROJECT_ID''"

definition DATASET_ID :: "environ \<Rightarrow> string option" where
  "DATASET_ID env = os_getenv env ''DATASET_ID''"

definition AUDIT_TABLE_ID :: "environ \<Rightarrow> string option" where
  "AUDIT_TABLE_ID env = os_getenv env ''AUDIT_TABLE_ID''"

subsection \<open>Faults\<close>

text \<open>
  A \<open>fault\<close> is what comes out of a call into the warehouse client when the call does
  not return; it carries the text that \<^verbatim>\<open>str(e)\<close> gives. \<open>Fault\<close> is an instance of
  \<^verbatim>\<open>Exception\<close>: what the client raises on a network, permission or job failure.
  \<open>Interrupt\<close> is an exception outside that hierarchy (\<^verbatim>\<open>KeyboardInterrupt\<close>,
  \<^verbatim>\<open>SystemExit\<close>), which can surface while a call blocks. The handler's
  \<^verbatim>\<open>except Exception\<close> clause catches the first kind only. The handler itself can
  raise \<^verbatim>\<open>KeyError\<close> when it reads the event payload.
\<close>

datatype fault = Fault string | Interrupt string

fun str_fault :: "fault \<Rightarrow> string" where
  "str_fault (Fault msg) = msg"
| "str_fault (Interrupt msg) = msg"

text \<open>\<^verbatim>\<open>isinstance(e, Exception)\<close>.\<close>

fun is_Exception :: "fault \<Rightarrow> bool" where
  "is_Exception (Fault msg) = True"
| "is_Exception (Interrupt msg) = False"

datatype exn = KeyError string | ClientError fault

subsection \<open>The trigger: event payload and context\<close>

type_synonym event = "string \<rightharpoonup> string"

record event_context =
  event_id :: string
  timestamp :: string
  event_type :: string
  resource :: "string \<rightharpoonup> string"

text \<open>\<^verbatim>\<open>d.get(k, default)\<close> on a dictionary.\<close>

definition dict_get :: "('k \<rightharpoonup> 'v) \<Rightarrow> 'k \<Rightarrow> 'v \<Rightarrow> 'v" where
  "dict_get d k dflt = (case d k of None \<Rightarrow> dflt | Some v \<Rightarrow> v)"

subsection \<open>The audit record\<close>

text \<open>
  \<^verbatim>\<open>event_metadata\<close> is a dictionary from field names to values; a value is a string
  or \<^verbatim>\<open>None\<close>.
\<close>

datatype pyval = PyNone | PyStr string

type_synonym event_metadata = "string \<rightharpoonup> pyval"

subsection \<open>The warehouse client\<close>

type_synonym job_error = "(string \<times> string) list"
type_synonym insert_error = "nat \<times> job_error list"

datatype write_disposition = WRITE_TRUNCATE | WRITE_APPEND | WRITE_EMPTY

record load_job_config =
  skip_leading_rows :: nat
  autodetect :: bool
  field_delimiter :: string
  allow_quoted_newlines :: bool
  quote_character :: string
  write_disposition :: write_disposition

text \<open>
  A load job as the handler sees it: its identifier, the outcome of waiting for it
  (\<^verbatim>\<open>load_job.result()\<close>) and the \<^verbatim>\<open>errors\<close> attribute read after the wait, which is
  \<^verbatim>\<open>None\<close> or a list.
\<close>

record load_job =
  job_id :: string
  result :: "fault + unit"
  errors :: "job_error list option"

record table =
  num_rows :: nat

record bq_client =
  load_table_from_uri :: "string \<Rightarrow> string \<Rightarrow> load_job_config \<Rightarrow> fault + load_job"
  get_table :: "string \<Rightarrow> fault + table"
  insert_rows_json :: "string \<Rightarrow> event_metadata list \<Rightarrow> fault + insert_error list"

text \<open>
  What lies outside the module for one invocation: the process environment, the client,
  and the builtin \<^verbatim>\<open>str\<close> on a list of job errors.
\<close>

record world =
  environ :: environ
  client :: bq_client
  str_errors :: "job_error list \<Rightarrow> string"

text \<open>Truthiness of \<^verbatim>\<open>load_job.errors\<close>: \<^verbatim>\<open>None\<close> and the empty list are false.\<close>

fun truthy :: "'a list option \<Rightarrow> bool" where
  "truthy None = False"
| "truthy (Some xs) = (xs \<noteq> [])"

subsection \<open>Effects\<close>

text \<open>One constructor for each \<^verbatim>\<open>logging\<close> call of the module, with the values it prints.\<close>

datatype log_record =
    Info_starting_load string string
  | Info_job_completed string
  | Info_loaded_rows nat string
  | Error_load_job_errors "job_error list"
  | Info_successfully_loaded string string
  | Error_failed_to_load string string
  | Error_failed_to_log_metadata "insert_error list"

text \<open>
  What one invocation does to the outside, in order of occurrence within each list: the
  log lines, the calls of \<^verbatim>\<open>load_table_from_uri\<close> with their arguments, the records
  that \<^verbatim>\<open>log_event_to_audit_table\<close> was called with, and the calls of
  \<^verbatim>\<open>insert_rows_json\<close> with their arguments.
\<close>

record effects =
  logs :: "log_record list"
  load_calls :: "(string \<times> string \<times> load_job_config) list"
  audit_calls :: "event_metadata list"
  inserts :: "(string \<times> event_metadata list) list"

definition no_effects :: effects where
  "no_effects = \<lparr>logs = [], load_calls = [], audit_calls = [], inserts = []\<rparr>"

definition logging :: "log_record \<Rightarrow> effects \<Rightarrow> effects" where
  "logging r s = s\<lparr>logs := logs s @ [r]\<rparr>"

subsection \<open>\<^verbatim>\<open>log_event_to_audit_table\<close>\<close>

definition audit_table_ref :: "environ \<Rightarrow> string" where
  "audit_table_ref env =
     fstr (PROJECT_ID env) @ ''.'' @ fstr (DATASET_ID env) @ ''.'' @ fstr (AUDIT_TABLE_ID env)"

text \<open>
  The function records that it was called, makes the insert call with the one-row list,
  and logs the errors the call returns when there are any. A fault raised by the insert
  call is not caught here.
\<close>

definition log_event_to_audit_table ::
  "world \<Rightarrow> event_metadata \<Rightarrow> effects \<Rightarrow> (fault + unit) \<times> effects" where
  "log_event_to_audit_table w event_metadata s =
     (let ref = audit_table_ref (environ w);
          rows_to_insert = [event_metadata];
          s1 = s\<lparr>audit_calls := audit_calls s @ [event_metadata],
                 inserts := inserts s @ [(ref, rows_to_insert)]\<rparr>
      in case insert_rows_json (client w) ref rows_to_insert of
           Inl f \<Rightarrow> (Inl f, s1)
         | Inr errs \<Rightarrow>
             if errs \<noteq> [] then (Inr (), logging (Error_failed_to_log_metadata errs) s1)
             else (Inr (), s1))"

subsection \<open>\<^verbatim>\<open>load_data_to_bigquery\<close>\<close>

definition table_name :: "string \<Rightarrow> string" where
  "table_name file_name = py_replace (hd (py_split file_name CHR ''.'')) CHR '' '' CHR ''_''"

definition table_ref :: "environ \<Rightarrow> string \<Rightarrow> string" where
  "table_ref env file_name =
     fstr (PROJECT_ID env) @ ''.'' @ fstr (DATASET_ID env) @ ''.100_'' @ table_name file_name"

definition uri :: "string \<Rightarrow> string \<Rightarrow> string" where
  "uri bucket_name file_name = ''gs://'' @ bucket_name @ ''/'' @ file_name"

definition initial_metadata :: "event_context \<Rightarrow> string \<Rightarrow> string \<Rightarrow> event_metadata" where
  "initial_metadata ctxt bucket_name file_name =
     [''event_id'' \<mapsto> PyStr (event_id ctxt),
      ''timestamp'' \<mapsto> PyStr (timestamp ctxt),
      ''event_type'' \<mapsto> PyStr (event_type ctxt),
      ''resource_name'' \<mapsto> PyStr (dict_get (resource ctxt) ''name'' ''''),
      ''bucket_name'' \<mapsto> PyStr bucket_name,
      ''file_name'' \<mapsto> PyStr file_name,
      ''status'' \<mapsto> PyStr ''Pending'',
      ''error_message'' \<mapsto> PyNone]"

definition job_config :: load_job_config where
  "job_config =
     \<lparr>skip_leading_rows = 1,
      autodetect = True,
      field_delimiter = '','',
      allow_quoted_newlines = True,
      quote_character = [CHR 0x22],
      write_disposition = WRITE_TRUNCATE\<rparr>"

text \<open>
  The body of the \<^verbatim>\<open>try\<close> block: submit the job, wait for it, look the destination
  table up, then set the status from the job's errors. It returns the fault it raised,
  if any, with the audit record and the effects as they are at that point.
\<close>

definition try_body ::
  "world \<Rightarrow> string \<Rightarrow> string \<Rightarrow> string \<Rightarrow> event_metadata \<Rightarrow> effects
     \<Rightarrow> (fault + unit) \<times> event_metadata \<times> effects" where
  "try_body w u tref file_name event_metadata s =
     (let s1 = s\<lparr>load_calls := load_calls s @ [(u, tref, job_config)]\<rparr>
      in case load_table_from_uri (client w) u tref job_config of
           Inl f \<Rightarrow> (Inl f, event_metadata, s1)
         | Inr job \<Rightarrow>
            (case result job of
               Inl f \<Rightarrow> (Inl f, event_metadata, s1)
             | Inr _ \<Rightarrow>
                (let s2 = logging (Info_job_completed (job_id job)) s1
                 in case get_table (client w) tref of
                      Inl f \<Rightarrow> (Inl f, event_metadata, s2)
                    | Inr tbl \<Rightarrow>
                       (let s3 = logging (Info_loaded_rows (num_rows tbl) tref) s2
                        in if truthy (errors job)
                           then (Inr (),
                                 event_metadata
                                   (''status'' \<mapsto> PyStr ''Failure'',
                                    ''error_message'' \<mapsto> PyStr (str_errors w (the (errors job)))),
                                 logging (Error_load_job_errors (the (errors job))) s3)
                           else (Inr (),
                                 event_metadata(''status'' \<mapsto> PyStr ''Success''),
                                 logging (Info_successfully_loaded file_name tref) s3)))))"

text \<open>
  The \<^verbatim>\<open>try\<close> block with its \<^verbatim>\<open>except Exception\<close> clause: an instance of
  \<^verbatim>\<open>Exception\<close> from the body marks the record as failed with its text, is logged, and
  is raised again. Any other exception passes the clause by: the record and the effects
  stay as the body left them.
\<close>

definition try_except ::
  "world \<Rightarrow> string \<Rightarrow> string \<Rightarrow> string \<Rightarrow> event_metadata \<Rightarrow> effects
     \<Rightarrow> (fault + unit) \<times> event_metadata \<times> effects" where
  "try_except w u tref file_name event_metadata s =
     (case try_body w u tref file_name event_metadata s of
        (Inl e, md, s') \<Rightarrow>
          if is_Exception e
          then (Inl e,
                md(''status'' \<mapsto> PyStr ''Failure'', ''error_message'' \<mapsto> PyStr (str_fault e)),
                logging (Error_failed_to_load u (str_fault e)) s')
          else (Inl e, md, s')
      | (Inr x, md, s') \<Rightarrow> (Inr x, md, s'))"

text \<open>
  The handler. The two payload reads come first and raise \<^verbatim>\<open>KeyError\<close> on a missing
  key. The \<^verbatim>\<open>finally\<close> clause calls the audit function on every way out of the
  \<^verbatim>\<open>try\<close> statement; a fault raised inside the \<^verbatim>\<open>finally\<close> clause replaces whatever the
  statement was about to do, otherwise the pending fault (if any) goes on to the caller.
\<close>

definition load_data_to_bigquery ::
  "world \<Rightarrow> event \<Rightarrow> event_context \<Rightarrow> (exn + unit) \<times> effects" where
  "load_data_to_bigquery w event ctxt =
     (case event ''bucket'' of
        None \<Rightarrow> (Inl (KeyError ''bucket''), no_effects)
      | Some bucket_name \<Rightarrow>
         (case event ''name'' of
            None \<Rightarrow> (Inl (KeyError ''name''), no_effects)
          | Some file_name \<Rightarrow>
             (let tref = table_ref (environ w) file_name;
                  u = uri bucket_name file_name;
                  event_metadata = initial_metadata ctxt bucket_name file_name;
                  s0 = logging (Info_starting_load u tref) no_effects;
                  (r, md, s1) = try_except w u tref file_name event_metadata s0;
                  (a, s2) = log_event_to_audit_table w md s1
              in case a of
                   Inl g \<Rightarrow> (Inl (ClientError g), s2)
                 | Inr _ \<Rightarrow>
                    (case r of
                       Inl e \<Rightarrow> (Inl (ClientError e), s2)
                     | Inr _ \<Rightarrow> (Inr (), s2)))))"

text \<open>
  The handler's state when control reaches the \<^verbatim>\<open>finally\<close> clause, for a payload
  with both keys: the pending outcome of the \<^verbatim>\<open>try\<close> statement, the audit record as it
  stands, and the effects so far.
\<close>

definition before_finally ::
  "world \<Rightarrow> string \<Rightarrow> string \<Rightarrow> event_context
     \<Rightarrow> (fault + unit) \<times> event_metadata \<times> effects" where
  "before_finally w bucket_name file_name ctxt =
     try_except w (uri bucket_name file_name) (table_ref (environ w) file_name) file_name
       (initial_metadata ctxt bucket_name file_name)
       (logging (Info_starting_load (uri bucket_name file_name) (table_ref (environ w) file_name))
          no_effects)"

subsection \<open>The specification's wording of the table-name segment\<close>

definition spaces_to_underscores :: "string \<Rightarrow> string" where
  "spaces_to_underscores s = map (\<lambda>c. if c = CHR '' '' then CHR ''_'' else c) s"

subsection \<open>Sample invocations\<close>

definition ev0 :: event where
  "ev0 = [''bucket'' \<mapsto> ''b1'', ''name'' \<mapsto> ''orders 2024.csv'']"

definition ctx0 :: event_context where
  "ctx0 = \<lparr>event_id = ''evt-1'', timestamp = ''2024-01-01T00:00:00Z'',
           event_type = ''google.storage.object.finalize'', resource = Map.empty\<rparr>"

definition env0 :: environ where
  "env0 = [''PROJECT_ID'' \<mapsto> ''p'', ''DATASET_ID'' \<mapsto> ''d'', ''AUDIT_TABLE_ID'' \<mapsto> ''audit'']"

definition job_ok :: load_job where
  "job_ok = \<lparr>job_id = ''job-1'', result = Inr (), errors = None\<rparr>"

definition job_with_errors :: load_job where
  "job_with_errors =
     \<lparr>job_id = ''job-2'', result = Inr (),
      errors = Some [[(''reason'', ''invalid''), (''message'', ''bad row'')]]\<rparr>"

definition job_wait_fails :: load_job where
  "job_wait_fails = \<lparr>job_id = ''job-3'', result = Inl (Fault ''job failed''), errors = None\<rparr>"

definition client_ok :: bq_client where
  "client_ok =
     \<lparr>load_table_from_uri = (\<lambda>u t c. Inr job_ok),
      get_table = (\<lambda>t. Inr \<lparr>num_rows = 3\<rparr>),
      insert_rows_json = (\<lambda>t rows. Inr [])\<rparr>"

definition world_ok :: world where
  "world_ok = \<lparr>environ = env0, client = client_ok, str_errors = (\<lambda>errs. ''job errors'')\<rparr>"

text \<open>The load job reports errors; everything else goes well.\<close>

definition world_job_errors :: world where
  "world_job_errors =
     world_ok\<lparr>client := client_ok\<lparr>load_table_from_uri := (\<lambda>u t c. Inr job_with_errors)\<rparr>\<rparr>"

text \<open>Submitting the load job raises.\<close>

definition world_submit_fails :: world where
  "world_submit_fails =
     world_ok\<lparr>client := client_ok\<lparr>load_table_from_uri := (\<lambda>u t c. Inl (Fault ''load failed''))\<rparr>\<rparr>"

text \<open>Waiting for the load job raises.\<close>

definition world_wait_fails :: world where
  "world_wait_fails =
     world_ok\<lparr>client := client_ok\<lparr>load_table_from_uri := (\<lambda>u t c. Inr job_wait_fails)\<rparr>\<rparr>"

text \<open>Waiting for the load job is cut short by an exception outside \<^verbatim>\<open>Exception\<close>.\<close>

definition job_wait_interrupted :: load_job where
  "job_wait_interrupted =
     \<lparr>job_id = ''job-4'', result = Inl (Interrupt ''KeyboardInterrupt''), errors = None\<rparr>"

definition world_wait_interrupted :: world where
  "world_wait_interrupted =
     world_ok\<lparr>client := client_ok\<lparr>load_table_from_uri := (\<lambda>u t c. Inr job_wait_interrupted)\<rparr>\<rparr>"

text \<open>The load succeeds and the audit insert reports a row error.\<close>

definition world_audit_row_error :: world where
  "world_audit_row_error =
     world_ok\<lparr>client := client_ok
       \<lparr>insert_rows_json := (\<lambda>t rows. Inr [(0, [[(''reason'', ''invalid'')]])])\<rparr>\<rparr>"

text \<open>The load succeeds and the audit insert call raises.\<close>

definition world_audit_raises :: world where
  "world_audit_raises =
     world_ok\<lparr>client := client_ok\<lparr>insert_rows_json := (\<lambda>t rows. Inl (Fault ''audit down''))\<rparr>\<rparr>"

text \<open>Submitting the load job raises, and then the audit insert call raises too.\<close>

definition world_submit_and_audit_raise :: world where
  "world_submit_and_audit_raise =
     world_ok\<lparr>client := client_ok
       \<lparr>load_table_from_uri := (\<lambda>u t c. Inl (Fault ''load failed'')),
        insert_rows_json := (\<lambda>t rows. Inl (Fault ''audit down''))\<rparr>\<rparr>"

text \<open>The load job completes without errors, then looking the table up raises.\<close>

definition world_lookup_fails :: world where
  "world_lookup_fails =
     world_ok\<lparr>client := client_ok\<lparr>get_table := (\<lambda>t. Inl (Fault ''lookup denied''))\<rparr>\<rparr>"

text \<open>The load job completes with errors, then looking the table up raises.\<close>

definition world_job_errors_lookup_fails :: world where
  "world_job_errors_lookup_fails =
     world_ok\<lparr>client := client_ok
       \<lparr>load_table_from_uri := (\<lambda>u t c. Inr job_with_errors),
        get_table := (\<lambda>t. Inl (Fault ''lookup denied''))\<rparr>\<rparr>"

text \<open>The load job completes with errors, then the audit insert call raises.\<close>

definition world_job_errors_audit_raises :: world where
  "world_job_errors_audit_raises =
     world_ok\<lparr>client := client_ok
       \<lparr>load_table_from_uri := (\<lambda>u t c. Inr job_with_errors),
        insert_rows_json := (\<lambda>t rows. Inl (Fault ''audit down''))\<rparr>\<rparr>"

text \<open>No configuration value is set in the process environment.\<close>

definition world_no_config :: world where
  "world_no_config = world_ok\<lparr>environ := Map.empty\<rparr>"

section \<open>Properties\<close>

subsection \<open>Strings\<close>

lemma py_split_nonempty: "py_split s sep \<noteq> []"
  by (induction s) (auto split: list.splits)

lemma hd_py_split: "hd (py_split s sep) = takeWhile (\<lambda>c. c \<noteq> sep) s"
  by (induction s) (auto simp: py_split_nonempty split: list.splits)

lemma py_replace_map: "py_replace s old new = map (\<lambda>c. if c = old then new else c) s"
  by (induction s) auto

lemma table_name_takeWhile:
  "table_name n = spaces_to_underscores (takeWhile (\<lambda>c. c \<noteq> CHR ''.'') n)"
  by (simp add: table_name_def hd_py_split py_replace_map spaces_to_underscores_def)

lemma cut_at_first_dot:
  assumes "CHR ''.'' \<in> set n"
  shows "\<exists>post. n = takeWhile (\<lambda>c. c \<noteq> CHR ''.'') n @ ''.'' @ post"
proof -
  let ?rest = "dropWhile (\<lambda>c. c \<noteq> CHR ''.'') n"
  have ne: "?rest \<noteq> []"
    using assms by (simp add: dropWhile_eq_Nil_conv)
  have "hd ?rest = CHR ''.''"
    using hd_dropWhile[OF ne] by simp
  with ne obtain post where "?rest = CHR ''.'' # post"
    by (cases ?rest) auto
  then have "n = takeWhile (\<lambda>c. c \<noteq> CHR ''.'') n @ CHR ''.'' # post"
    by (metis takeWhile_dropWhile_id)
  then show ?thesis by auto
qed

subsection \<open>Which effects each step touches\<close>

lemma logging_fields:
  "logs (logging r s) = logs s @ [r]"
  "load_calls (logging r s) = load_calls s"
  "audit_calls (logging r s) = audit_calls s"
  "inserts (logging r s) = inserts s"
  by (simp_all add: logging_def)

lemma no_effects_fields:
  "logs no_effects = []" "load_calls no_effects = []"
  "audit_calls no_effects = []" "inserts no_effects = []"
  by (simp_all add: no_effects_def)

lemma try_body_frame:
  "load_calls (snd (snd (try_body w u t fn md s))) = load_calls s @ [(u, t, job_config)]"
  "audit_calls (snd (snd (try_body w u t fn md s))) = audit_calls s"
  "inserts (snd (snd (try_body w u t fn md s))) = inserts s"
  by (simp_all add: try_body_def Let_def logging_fields split: sum.splits)

lemma try_except_frame:
  "load_calls (snd (snd (try_except w u t fn md s))) = load_calls s @ [(u, t, job_config)]"
  "audit_calls (snd (snd (try_except w u t fn md s))) = audit_calls s"
  "inserts (snd (snd (try_except w u t fn md s))) = inserts s"
  using try_body_frame[of w u t fn md s]
  by (auto simp add: try_except_def logging_fields split: prod.splits sum.splits)

lemma before_finally_frame:
  "load_calls (snd (snd (before_finally w b n ctxt))) =
     [(uri b n, table_ref (environ w) n, job_config)]"
  "audit_calls (snd (snd (before_finally w b n ctxt))) = []"
  "inserts (snd (snd (before_finally w b n ctxt))) = []"
  by (simp_all add: before_finally_def try_except_frame logging_fields no_effects_fields)

lemma audit_fields:
  "load_calls (snd (log_event_to_audit_table w md s)) = load_calls s"
  "audit_calls (snd (log_event_to_audit_table w md s)) = audit_calls s @ [md]"
  "inserts (snd (log_event_to_audit_table w md s)) =
     inserts s @ [(audit_table_ref (environ w), [md])]"
  by (simp_all add: log_event_to_audit_table_def Let_def logging_fields split: sum.splits)

lemma audit_outcome:
  "fst (log_event_to_audit_table w md s) =
     (case insert_rows_json (client w) (audit_table_ref (environ w)) [md] of
        Inl f \<Rightarrow> Inl f | Inr errs \<Rightarrow> Inr ())"
  by (simp add: log_event_to_audit_table_def Let_def split: sum.splits)

lemma audit_logs:
  "logs (snd (log_event_to_audit_table w md s)) =
     logs s @ (case insert_rows_json (client w) (audit_table_ref (environ w)) [md] of
                 Inl f \<Rightarrow> []
               | Inr errs \<Rightarrow> if errs \<noteq> [] then [Error_failed_to_log_metadata errs] else [])"
  by (simp add: log_event_to_audit_table_def Let_def logging_fields split: sum.splits)

subsection \<open>The handler on a payload with both keys\<close>

lemma handler_keys:
  assumes "event ''bucket'' = Some b" and "event ''name'' = Some n"
  shows "load_data_to_bigquery w event ctxt =
     (let bf = before_finally w b n ctxt;
          au = log_event_to_audit_table w (fst (snd bf)) (snd (snd bf))
      in (case fst au of
            Inl g \<Rightarrow> Inl (ClientError g)
          | Inr _ \<Rightarrow> (case fst bf of Inl e \<Rightarrow> Inl (ClientError e) | Inr _ \<Rightarrow> Inr ()),
          snd au))"
  using assms
  by (simp add: load_data_to_bigquery_def before_finally_def Let_def case_prod_beta
           split: sum.splits)

lemma handler_effects:
  assumes "event ''bucket'' = Some b" and "event ''name'' = Some n"
  shows "snd (load_data_to_bigquery w event ctxt) =
           snd (log_event_to_audit_table w (fst (snd (before_finally w b n ctxt)))
                  (snd (snd (before_finally w b n ctxt))))"
  by (simp add: handler_keys[OF assms] Let_def)

lemma handler_outcome:
  assumes "event ''bucket'' = Some b" and "event ''name'' = Some n"
  shows "fst (load_data_to_bigquery w event ctxt) =
           (case insert_rows_json (client w) (audit_table_ref (environ w))
                   [fst (snd (before_finally w b n ctxt))] of
              Inl g \<Rightarrow> Inl (ClientError g)
            | Inr _ \<Rightarrow> (case fst (before_finally w b n ctxt) of
                          Inl e \<Rightarrow> Inl (ClientError e) | Inr _ \<Rightarrow> Inr ()))"
  by (simp add: handler_keys[OF assms] Let_def audit_outcome split: sum.splits)

lemma handler_missing_key:
  assumes "event ''bucket'' = None \<or> event ''name'' = None"
  shows "snd (load_data_to_bigquery w event ctxt) = no_effects"
  using assms by (auto simp add: load_data_to_bigquery_def split: option.splits)

subsection \<open>The audit record and the pending outcome at the \<^verbatim>\<open>finally\<close> clause\<close>



lemma lookup_raises:
  assumes "load_table_from_uri (client w) (uri b n) (table_ref (environ w) n) job_config = Inr job"
    and "result job = Inr ()"
    and "get_table (client w) (table_ref (environ w) n) = Inl f"
    and "is_Exception f"
  shows "fst (before_finally w b n ctxt) = Inl f"
    and "fst (snd (before_finally w b n ctxt)) =
           (initial_metadata ctxt b n)
             (''status'' \<mapsto> PyStr ''Failure'', ''error_message'' \<mapsto> PyStr (str_fault f))"
  using assms by (simp_all add: before_finally_def try_except_def try_body_def Let_def)

lemma job_reports_errors:
  assumes "load_table_from_uri (client w) (uri b n) (table_ref (environ w) n) job_config = Inr job"
    and "result job = Inr ()"
    and "get_table (client w) (table_ref (environ w) n) = Inr tbl"
    and "errors job = Some errs" and "errs \<noteq> []"
  shows "fst (before_finally w b n ctxt) = Inr ()"
    and "fst (snd (before_finally w b n ctxt)) =
           (initial_metadata ctxt b n)
             (''status'' \<mapsto> PyStr ''Failure'', ''error_message'' \<mapsto> PyStr (str_errors w errs))"
  using assms by (simp_all add: before_finally_def try_except_def try_body_def Let_def)

lemma job_reports_no_errors:
  assumes "load_table_from_uri (client w) (uri b n) (table_ref (environ w) n) job_config = Inr job"
    and "result job = Inr ()"
    and "get_table (client w) (table_ref (environ w) n) = Inr tbl"
    and "\<not> truthy (errors job)"
  shows "fst (before_finally w b n ctxt) = Inr ()"
    and "fst (snd (before_finally w b n ctxt)) =
           (initial_metadata ctxt b n)(''status'' \<mapsto> PyStr ''Success'')"
  using assms by (simp_all add: before_finally_def try_except_def try_body_def Let_def)


lemma record_other_fields:
  assumes "k \<noteq> ''status''" and "k \<noteq> ''error_message''"
  shows "fst (snd (before_finally w b n ctxt)) k = initial_metadata ctxt b n k"
  using assms
  by (simp add: before_finally_def try_except_def try_body_def Let_def split: sum.splits)

lemmas handler_defs =
  load_data_to_bigquery_def try_except_def try_body_def log_event_to_audit_table_def
  before_finally_def logging_def no_effects_def Let_def

lemmas naming_defs =
  table_ref_def table_name_def audit_table_ref_def uri_def PROJECT_ID_def DATASET_ID_def
  AUDIT_TABLE_ID_def os_getenv_def

lemmas sample_defs =
  ev0_def ctx0_def env0_def job_ok_def job_with_errors_def job_wait_fails_def client_ok_def
  world_ok_def world_job_errors_def world_submit_fails_def world_wait_fails_def
  world_audit_row_error_def world_audit_raises_def world_submit_and_audit_raise_def
  world_lookup_fails_def world_job_errors_lookup_fails_def world_job_errors_audit_raises_def
  world_no_config_def job_wait_interrupted_def world_wait_interrupted_def

lemma ev0_keys: "ev0 ''bucket'' = Some ''b1''" "ev0 ''name'' = Some ''orders 2024.csv''"
  by (simp_all add: ev0_def)

section \<open>The claims\<close>

text \<open>
  Claim C1. On every way out of the handler (normal return, completion with job errors,
  or a raised fault), the audit function is called exactly once, with the audit record as
  it stands at that point, before the handler returns or the fault escapes. The payload
  carries \<open>bucket\<close> and \<open>name\<close>, as the handler's input is documented; the outcomes of
  all client calls are arbitrary. The handler's result is a normal return or a client
  fault, and in both cases the list of audit calls made during the invocation holds
  exactly the record that the \<^verbatim>\<open>try\<close> statement left.
\<close>

theorem audit_logger_invoked_exactly_once:
  assumes "event ''bucket'' = Some b" and "event ''name'' = Some n"
  shows "audit_calls (snd (load_data_to_bigquery w event ctxt)) =
           [fst (snd (before_finally w b n ctxt))]
       \<and> inserts (snd (load_data_to_bigquery w event ctxt)) =
           [(audit_table_ref (environ w), [fst (snd (before_finally w b n ctxt))])]
       \<and> (fst (load_data_to_bigquery w event ctxt) = Inr ()
          \<or> (\<exists>f. fst (load_data_to_bigquery w event ctxt) = Inl (ClientError f)))"
proof -
  have "audit_calls (snd (load_data_to_bigquery w event ctxt)) =
          [fst (snd (before_finally w b n ctxt))]"
    by (simp add: handler_effects[OF assms] audit_fields before_finally_frame)
  moreover have "inserts (snd (load_data_to_bigquery w event ctxt)) =
          [(audit_table_ref (environ w), [fst (snd (before_finally w b n ctxt))])]"
    by (simp add: handler_effects[OF assms] audit_fields before_finally_frame)
  moreover have "fst (load_data_to_bigquery w event ctxt) = Inr ()
          \<or> (\<exists>f. fst (load_data_to_bigquery w event ctxt) = Inl (ClientError f))"
    by (simp add: handler_outcome[OF assms] split: sum.splits)
  ultimately show ?thesis by simp
qed

theorem audit_logger_invoked_exactly_once_witness:
  "ev0 ''bucket'' = Some ''b1'' \<and> ev0 ''name'' = Some ''orders 2024.csv''
   \<and> audit_calls (snd (load_data_to_bigquery world_submit_fails ev0 ctx0)) =
       [fst (snd (before_finally world_submit_fails ''b1'' ''orders 2024.csv'' ctx0))]
   \<and> length (audit_calls (snd (load_data_to_bigquery world_submit_fails ev0 ctx0))) = 1"
  using audit_logger_invoked_exactly_once
          [of ev0 "''b1''" "''orders 2024.csv''" world_submit_fails ctx0]
  by (simp add: ev0_keys)

text \<open>
  Claim C4. The destination table identifier is the project, a dot, the dataset,
  \<open>.100_\<close> and the table-name segment. For a name with a dot the segment is the part
  before the first dot with spaces turned into underscores; for a name without a dot it
  is the whole name with spaces turned into underscores. The identifier is the one the
  load job is submitted with.
\<close>

theorem destination_table_identifier:
  assumes "event ''bucket'' = Some b" and "event ''name'' = Some n"
  shows "\<exists>seg.
           map (\<lambda>j. fst (snd j)) (load_calls (snd (load_data_to_bigquery w event ctxt))) =
             [fstr (PROJECT_ID (environ w)) @ ''.'' @ fstr (DATASET_ID (environ w))
                @ ''.100_'' @ seg]
         \<and> (CHR ''.'' \<in> set n \<longrightarrow>
              (\<exists>pre post. n = pre @ ''.'' @ post \<and> CHR ''.'' \<notin> set pre
                          \<and> seg = spaces_to_underscores pre))
         \<and> (CHR ''.'' \<notin> set n \<longrightarrow> seg = spaces_to_underscores n)"
proof -
  let ?pre = "takeWhile (\<lambda>c. c \<noteq> CHR ''.'') n"
  have jobs: "map (\<lambda>j. fst (snd j)) (load_calls (snd (load_data_to_bigquery w event ctxt))) =
             [fstr (PROJECT_ID (environ w)) @ ''.'' @ fstr (DATASET_ID (environ w))
                @ ''.100_'' @ table_name n]"
    by (simp add: handler_effects[OF assms] audit_fields before_finally_frame table_ref_def)
  have dotted: "\<exists>pre post. n = pre @ ''.'' @ post \<and> CHR ''.'' \<notin> set pre
                  \<and> table_name n = spaces_to_underscores pre" if "CHR ''.'' \<in> set n"
  proof -
    note dot = that
    obtain post where "n = ?pre @ ''.'' @ post"
      using cut_at_first_dot[OF dot] by blast
    moreover have "CHR ''.'' \<notin> set ?pre"
      by (auto dest: set_takeWhileD)
    ultimately show ?thesis
      using table_name_takeWhile by blast
  qed
  have plain: "table_name n = spaces_to_underscores n" if "CHR ''.'' \<notin> set n"
  proof -
    have "?pre = n"
      by (rule takeWhile_eq_all_conv[THEN iffD2]) (use that in auto)
    then show ?thesis by (simp only: table_name_takeWhile)
  qed
  show ?thesis
  proof (rule exI[of _ "table_name n"], intro conjI impI)
    show "map (\<lambda>j. fst (snd j)) (load_calls (snd (load_data_to_bigquery w event ctxt))) =
             [fstr (PROJECT_ID (environ w)) @ ''.'' @ fstr (DATASET_ID (environ w))
                @ ''.100_'' @ table_name n]"
      by (rule jobs)
  next
    assume "CHR ''.'' \<in> set n"
    then show "\<exists>pre post. n = pre @ ''.'' @ post \<and> CHR ''.'' \<notin> set pre
                  \<and> table_name n = spaces_to_underscores pre"
      by (rule dotted)
  next
    assume "CHR ''.'' \<notin> set n"
    then show "table_name n = spaces_to_underscores n"
      by (rule plain)
  qed
qed

theorem destination_table_identifier_witness:
  "ev0 ''bucket'' = Some ''b1'' \<and> ev0 ''name'' = Some ''orders 2024.csv''
   \<and> (\<exists>seg. map (\<lambda>j. fst (snd j)) (load_calls (snd (load_data_to_bigquery world_ok ev0 ctx0))) =
               [''p.d.100_'' @ seg]
            \<and> (\<exists>pre post. ''orders 2024.csv'' = pre @ ''.'' @ post \<and> CHR ''.'' \<notin> set pre
                           \<and> seg = spaces_to_underscores pre))"
  using destination_table_identifier [of ev0 "''b1''" "''orders 2024.csv''" world_ok ctx0]
  by (simp add: ev0_keys world_ok_def env0_def PROJECT_ID_def DATASET_ID_def os_getenv_def)

text \<open>
  Claim C5. The load job is submitted with one configuration: one leading row skipped,
  schema inferred, comma as field delimiter, quoted newlines allowed, the double quote
  as quote character, and the write disposition that truncates the destination table
  (not the one that appends to it).
\<close>

theorem load_job_configuration:
  assumes "event ''bucket'' = Some b" and "event ''name'' = Some n"
  shows "\<exists>cfg. load_calls (snd (load_data_to_bigquery w event ctxt)) =
                 [(uri b n, table_ref (environ w) n, cfg)]
           \<and> skip_leading_rows cfg = 1
           \<and> autodetect cfg
           \<and> field_delimiter cfg = '',''
           \<and> allow_quoted_newlines cfg
           \<and> quote_character cfg = [CHR 0x22]
           \<and> write_disposition cfg = WRITE_TRUNCATE
           \<and> write_disposition cfg \<noteq> WRITE_APPEND"
proof -
  have "load_calls (snd (load_data_to_bigquery w event ctxt)) =
          [(uri b n, table_ref (environ w) n, job_config)]"
    by (simp add: handler_effects[OF assms] audit_fields before_finally_frame)
  then show ?thesis
    by (simp add: job_config_def)
qed

theorem load_job_configuration_witness:
  "ev0 ''bucket'' = Some ''b1'' \<and> ev0 ''name'' = Some ''orders 2024.csv''
   \<and> (\<exists>cfg. load_calls (snd (load_data_to_bigquery world_ok ev0 ctx0)) =
               [(''gs://b1/orders 2024.csv'', ''p.d.100_orders_2024'', cfg)]
            \<and> skip_leading_rows cfg = 1 \<and> write_disposition cfg = WRITE_TRUNCATE)"
  using load_job_configuration [of ev0 "''b1''" "''orders 2024.csv''" world_ok ctx0]
  by (simp add: ev0_keys naming_defs world_ok_def env0_def) blast




text \<open>
  Claim C10. In the record passed to the audit function the fields \<open>event_id\<close>,
  \<open>timestamp\<close>, \<open>event_type\<close>, \<open>resource_name\<close>, \<open>bucket_name\<close> and \<open>file_name\<close> hold
  the values taken from the event and the context, with the empty string as
  \<open>resource_name\<close> when the context's resource has no \<open>name\<close> key; every key other than
  \<open>status\<close> and \<open>error_message\<close> is as it was when the record was created.
\<close>

theorem identifying_fields_are_not_mutated:
  assumes "event ''bucket'' = Some b" and "event ''name'' = Some n"
  shows "\<exists>md. audit_calls (snd (load_data_to_bigquery w event ctxt)) = [md]
           \<and> md ''event_id'' = Some (PyStr (event_id ctxt))
           \<and> md ''timestamp'' = Some (PyStr (timestamp ctxt))
           \<and> md ''event_type'' = Some (PyStr (event_type ctxt))
           \<and> md ''resource_name'' =
               Some (PyStr (case resource ctxt ''name'' of None \<Rightarrow> [] | Some v \<Rightarrow> v))
           \<and> md ''bucket_name'' = Some (PyStr b)
           \<and> md ''file_name'' = Some (PyStr n)
           \<and> (\<forall>k. k \<noteq> ''status'' \<and> k \<noteq> ''error_message''
                    \<longrightarrow> md k = initial_metadata ctxt b n k)"
proof -
  let ?md = "fst (snd (before_finally w b n ctxt))"
  have calls: "audit_calls (snd (load_data_to_bigquery w event ctxt)) = [?md]"
    by (simp add: handler_effects[OF assms] audit_fields before_finally_frame)
  have frame: "\<forall>k. k \<noteq> ''status'' \<and> k \<noteq> ''error_message''
                 \<longrightarrow> ?md k = initial_metadata ctxt b n k"
    by (simp add: record_other_fields)
  have "?md ''event_id'' = Some (PyStr (event_id ctxt))"
    by (simp add: record_other_fields initial_metadata_def)
  moreover have "?md ''timestamp'' = Some (PyStr (timestamp ctxt))"
    by (simp add: record_other_fields initial_metadata_def)
  moreover have "?md ''event_type'' = Some (PyStr (event_type ctxt))"
    by (simp add: record_other_fields initial_metadata_def)
  moreover have "?md ''resource_name'' =
               Some (PyStr (case resource ctxt ''name'' of None \<Rightarrow> [] | Some v \<Rightarrow> v))"
    by (simp add: record_other_fields initial_metadata_def dict_get_def)
  moreover have "?md ''bucket_name'' = Some (PyStr b)"
    by (simp add: record_other_fields initial_metadata_def)
  moreover have "?md ''file_name'' = Some (PyStr n)"
    by (simp add: record_other_fields initial_metadata_def)
  ultimately show ?thesis
    using calls frame by blast
qed

theorem identifying_fields_are_not_mutated_witness:
  "ev0 ''bucket'' = Some ''b1'' \<and> ev0 ''name'' = Some ''orders 2024.csv''
   \<and> (\<exists>md. audit_calls (snd (load_data_to_bigquery world_job_errors ev0 ctx0)) = [md]
           \<and> md ''event_id'' = Some (PyStr ''evt-1'')
           \<and> md ''resource_name'' = Some (PyStr [])
           \<and> md ''bucket_name'' = Some (PyStr ''b1'')
           \<and> md ''file_name'' = Some (PyStr ''orders 2024.csv''))"
  using identifying_fields_are_not_mutated
          [of ev0 "''b1''" "''orders 2024.csv''" world_job_errors ctx0]
  by (simp add: ev0_keys ctx0_def) blast




text \<open>
  Claim C3, as stated: a failure inside the insert call of the audit function is only
  logged, never reaches the handler's caller and leaves the handler's own outcome as it
  was. This fails when the insert call raises: the load went well and the handler was
  about to return, yet its caller gets the fault of the insert call; and when the load
  had raised, the caller gets the fault of the insert call instead of the load's.
\<close>

theorem audit_failure_never_propagates_counterexample:
  "fst (before_finally world_audit_raises ''b1'' ''orders 2024.csv'' ctx0) = Inr ()
   \<and> insert_rows_json (client world_audit_raises) (audit_table_ref (environ world_audit_raises))
        [fst (snd (before_finally world_audit_raises ''b1'' ''orders 2024.csv'' ctx0))] =
       Inl (Fault ''audit down'')
   \<and> fst (load_data_to_bigquery world_audit_raises ev0 ctx0) =
       Inl (ClientError (Fault ''audit down''))
   \<and> fst (before_finally world_submit_and_audit_raise ''b1'' ''orders 2024.csv'' ctx0) =
       Inl (Fault ''load failed'')
   \<and> fst (load_data_to_bigquery world_submit_and_audit_raise ev0 ctx0) =
       Inl (ClientError (Fault ''audit down''))"
  by (simp add: handler_defs naming_defs sample_defs)

text \<open>
  Claim C3, amended: row errors that the insert call returns are only logged (one error
  line, after everything else the invocation logged); they do not reach the handler's
  caller, and the handler's outcome is the one the \<^verbatim>\<open>try\<close> statement had: a normal
  return stays a normal return, and a fault on its way to the caller is the fault the
  caller gets. A fault raised by the insert call itself is not caught and reaches the
  caller in place of that outcome.
\<close>

theorem audit_row_errors_are_logged_only:
  assumes "event ''bucket'' = Some b" and "event ''name'' = Some n"
  shows "(\<forall>errs. insert_rows_json (client w) (audit_table_ref (environ w))
                   [fst (snd (before_finally w b n ctxt))] = Inr errs
            \<longrightarrow> fst (load_data_to_bigquery w event ctxt) =
                  (case fst (before_finally w b n ctxt) of
                     Inl e \<Rightarrow> Inl (ClientError e) | Inr u \<Rightarrow> Inr ())
              \<and> logs (snd (load_data_to_bigquery w event ctxt)) =
                  logs (snd (snd (before_finally w b n ctxt)))
                    @ (if errs \<noteq> [] then [Error_failed_to_log_metadata errs] else []))
       \<and> (\<forall>g. insert_rows_json (client w) (audit_table_ref (environ w))
                   [fst (snd (before_finally w b n ctxt))] = Inl g
            \<longrightarrow> fst (load_data_to_bigquery w event ctxt) = Inl (ClientError g))"
  by (simp add: handler_outcome[OF assms] handler_effects[OF assms] audit_logs)

theorem audit_row_errors_are_logged_only_witness:
  "ev0 ''bucket'' = Some ''b1'' \<and> ev0 ''name'' = Some ''orders 2024.csv''
   \<and> insert_rows_json (client world_audit_row_error)
        (audit_table_ref (environ world_audit_row_error))
        [fst (snd (before_finally world_audit_row_error ''b1'' ''orders 2024.csv'' ctx0))] =
       Inr [(0, [[(''reason'', ''invalid'')]])]
   \<and> fst (load_data_to_bigquery world_audit_row_error ev0 ctx0) = Inr ()
   \<and> last (logs (snd (load_data_to_bigquery world_audit_row_error ev0 ctx0))) =
       Error_failed_to_log_metadata [(0, [[(''reason'', ''invalid'')]])]"
proof -
  have returned: "insert_rows_json (client world_audit_row_error) t rows =
          Inr [(0, [[(''reason'', ''invalid'')]])]" for t rows
    by (simp add: sample_defs)
  have pending: "fst (before_finally world_audit_row_error ''b1'' ''orders 2024.csv'' ctx0) = Inr ()"
    by (simp add: handler_defs naming_defs sample_defs)
  show ?thesis
    using audit_row_errors_are_logged_only
            [OF ev0_keys, of world_audit_row_error ctx0]
    by (simp add: ev0_keys returned pending)
qed

text \<open>
  Claim C6, as stated: whenever the load job completes and reports no errors, the record
  passed to the audit function has status \<open>Success\<close> and no error message. Between the
  wait and the check of the job's errors the handler looks the destination table up,
  inside the same \<^verbatim>\<open>try\<close> block; when that call raises, the record is marked as failed
  although the job completed without errors.
\<close>

theorem success_status_counterexample:
  "load_table_from_uri (client world_lookup_fails) (uri ''b1'' ''orders 2024.csv'')
       (table_ref (environ world_lookup_fails) ''orders 2024.csv'') job_config = Inr job_ok
   \<and> result job_ok = Inr ()
   \<and> errors job_ok = None
   \<and> map (\<lambda>md. (md ''status'', md ''error_message''))
       (audit_calls (snd (load_data_to_bigquery world_lookup_fails ev0 ctx0))) =
       [(Some (PyStr ''Failure''), Some (PyStr ''lookup denied''))]"
  by (simp add: handler_defs naming_defs sample_defs)

text \<open>
  Claim C6, amended: whenever the load job completes, the table lookup that follows it
  returns, and the job reports no errors, the record passed to the audit function has
  status \<open>Success\<close> and its error message is \<^verbatim>\<open>None\<close>.
\<close>

theorem success_is_recorded:
  assumes "event ''bucket'' = Some b" and "event ''name'' = Some n"
    and "load_table_from_uri (client w) (uri b n) (table_ref (environ w) n) job_config = Inr job"
    and "result job = Inr ()"
    and "get_table (client w) (table_ref (environ w) n) = Inr tbl"
    and "errors job = None \<or> errors job = Some []"
  shows "\<exists>md. audit_calls (snd (load_data_to_bigquery w event ctxt)) = [md]
           \<and> md ''status'' = Some (PyStr ''Success'')
           \<and> md ''error_message'' = Some PyNone"
proof -
  have falsy: "\<not> truthy (errors job)"
    using assms(6) by auto
  have rec: "fst (snd (before_finally w b n ctxt)) =
               (initial_metadata ctxt b n)(''status'' \<mapsto> PyStr ''Success'')"
    by (rule job_reports_no_errors(2)[OF assms(3,4,5) falsy])
  have "audit_calls (snd (load_data_to_bigquery w event ctxt)) =
          [(initial_metadata ctxt b n)(''status'' \<mapsto> PyStr ''Success'')]"
    by (simp add: handler_effects[OF assms(1,2)] audit_fields before_finally_frame rec)
  then show ?thesis
    by (simp add: initial_metadata_def)
qed

theorem success_is_recorded_witness:
  "ev0 ''bucket'' = Some ''b1'' \<and> ev0 ''name'' = Some ''orders 2024.csv''
   \<and> result job_ok = Inr ()
   \<and> errors job_ok = None
   \<and> (\<exists>md. audit_calls (snd (load_data_to_bigquery world_ok ev0 ctx0)) = [md]
           \<and> md ''status'' = Some (PyStr ''Success'')
           \<and> md ''error_message'' = Some PyNone)"
proof -
  have submit: "load_table_from_uri (client world_ok) (uri ''b1'' ''orders 2024.csv'')
          (table_ref (environ world_ok) ''orders 2024.csv'') job_config = Inr job_ok"
    by (simp add: sample_defs)
  have wait: "result job_ok = Inr ()"
    by (simp add: job_ok_def)
  have lookup: "get_table (client world_ok) (table_ref (environ world_ok) ''orders 2024.csv'') =
          Inr \<lparr>num_rows = 3\<rparr>"
    by (simp add: sample_defs)
  have none: "errors job_ok = None \<or> errors job_ok = Some []"
    by (simp add: job_ok_def)
  show ?thesis
    using success_is_recorded [OF ev0_keys submit wait lookup none, of ctx0]
    by (simp add: ev0_keys job_ok_def)
qed

text \<open>
  Claim C7, as stated: whenever the load job completes but reports errors, the record
  has status \<open>Failure\<close>, its error message is the string form of those errors, and the
  handler returns normally. The error message is another one when the table lookup after
  the wait raises (it is then the text of that fault), and the handler does not return
  normally when the insert call of the audit function raises.
\<close>

theorem job_errors_counterexample:
  "errors job_with_errors = Some [[(''reason'', ''invalid''), (''message'', ''bad row'')]]
   \<and> str_errors world_job_errors_lookup_fails
        [[(''reason'', ''invalid''), (''message'', ''bad row'')]] = ''job errors''
   \<and> map (\<lambda>md. md ''error_message'')
       (audit_calls (snd (load_data_to_bigquery world_job_errors_lookup_fails ev0 ctx0))) =
       [Some (PyStr ''lookup denied'')]
   \<and> fst (load_data_to_bigquery world_job_errors_lookup_fails ev0 ctx0) =
       Inl (ClientError (Fault ''lookup denied''))
   \<and> map (\<lambda>md. md ''error_message'')
       (audit_calls (snd (load_data_to_bigquery world_job_errors_audit_raises ev0 ctx0))) =
       [Some (PyStr ''job errors'')]
   \<and> fst (load_data_to_bigquery world_job_errors_audit_raises ev0 ctx0) =
       Inl (ClientError (Fault ''audit down''))"
  by (simp add: handler_defs naming_defs sample_defs)

text \<open>
  Claim C7, amended: whenever the load job completes with errors and the table lookup
  that follows it returns, the record passed to the audit function has status
  \<open>Failure\<close> and the string form of those errors as its error message; the handler then
  returns normally when the insert call of the audit function returns, and raises that
  call's fault when it raises.
\<close>

theorem job_errors_are_recorded_not_raised:
  assumes "event ''bucket'' = Some b" and "event ''name'' = Some n"
    and "load_table_from_uri (client w) (uri b n) (table_ref (environ w) n) job_config = Inr job"
    and "result job = Inr ()"
    and "get_table (client w) (table_ref (environ w) n) = Inr tbl"
    and "errors job = Some errs" and "errs \<noteq> []"
  shows "audit_calls (snd (load_data_to_bigquery w event ctxt)) =
           [(initial_metadata ctxt b n)
              (''status'' \<mapsto> PyStr ''Failure'',
               ''error_message'' \<mapsto> PyStr (str_errors w errs))]
       \<and> fst (load_data_to_bigquery w event ctxt) =
           (case insert_rows_json (client w) (audit_table_ref (environ w))
                   [(initial_metadata ctxt b n)
                      (''status'' \<mapsto> PyStr ''Failure'',
                       ''error_message'' \<mapsto> PyStr (str_errors w errs))] of
              Inl g \<Rightarrow> Inl (ClientError g)
            | Inr ierrs \<Rightarrow> Inr ())"
proof -
  let ?md = "(initial_metadata ctxt b n)
               (''status'' \<mapsto> PyStr ''Failure'',
                ''error_message'' \<mapsto> PyStr (str_errors w errs))"
  have pending: "fst (before_finally w b n ctxt) = Inr ()"
    by (rule job_reports_errors(1)[OF assms(3,4,5,6,7)])
  have rec: "fst (snd (before_finally w b n ctxt)) = ?md"
    by (rule job_reports_errors(2)[OF assms(3,4,5,6,7)])
  have "audit_calls (snd (load_data_to_bigquery w event ctxt)) = [?md]"
    by (simp add: handler_effects[OF assms(1,2)] audit_fields before_finally_frame rec)
  moreover have "fst (load_data_to_bigquery w event ctxt) =
           (case insert_rows_json (client w) (audit_table_ref (environ w)) [?md] of
              Inl g \<Rightarrow> Inl (ClientError g) | Inr ierrs \<Rightarrow> Inr ())"
    by (simp add: handler_outcome[OF assms(1,2)] pending rec split: sum.splits)
  ultimately show ?thesis by simp
qed

theorem job_errors_are_recorded_not_raised_witness:
  "ev0 ''bucket'' = Some ''b1'' \<and> ev0 ''name'' = Some ''orders 2024.csv''
   \<and> errors job_with_errors = Some [[(''reason'', ''invalid''), (''message'', ''bad row'')]]
   \<and> map (\<lambda>md. (md ''status'', md ''error_message''))
       (audit_calls (snd (load_data_to_bigquery world_job_errors ev0 ctx0))) =
       [(Some (PyStr ''Failure''), Some (PyStr ''job errors''))]
   \<and> fst (load_data_to_bigquery world_job_errors ev0 ctx0) = Inr ()"
proof -
  have submit: "load_table_from_uri (client world_job_errors) (uri ''b1'' ''orders 2024.csv'')
          (table_ref (environ world_job_errors) ''orders 2024.csv'') job_config =
          Inr job_with_errors"
    by (simp add: sample_defs)
  have wait: "result job_with_errors = Inr ()"
    by (simp add: job_with_errors_def)
  have lookup: "get_table (client world_job_errors)
          (table_ref (environ world_job_errors) ''orders 2024.csv'') = Inr \<lparr>num_rows = 3\<rparr>"
    by (simp add: sample_defs)
  have errs: "errors job_with_errors =
          Some [[(''reason'', ''invalid''), (''message'', ''bad row'')]]"
    by (simp add: job_with_errors_def)
  have ne: "[[(''reason'', ''invalid''), (''message'', ''bad row'')]] \<noteq> []"
    by simp
  have returns: "insert_rows_json (client world_job_errors) t rows = Inr []" for t rows
    by (simp add: sample_defs)
  have str: "str_errors world_job_errors es = ''job errors''" for es
    by (simp add: sample_defs)
  show ?thesis
    using job_errors_are_recorded_not_raised [OF ev0_keys submit wait lookup errs ne, of ctx0]
    by (simp add: ev0_keys errs returns str)
qed

text \<open>
  Claim C9, as stated: when one of \<open>PROJECT_ID\<close>, \<open>DATASET_ID\<close>, \<open>AUDIT_TABLE_ID\<close> is
  absent from the environment, the system fails fast instead of building a malformed
  table identifier. The module reads the three values without any check; with none of
  them set the handler builds its identifiers from the text \<open>None\<close>, submits the load
  job and the audit row under them, and returns normally when the client accepts them.
\<close>

theorem fail_fast_counterexample:
  "PROJECT_ID (environ world_no_config) = None
   \<and> DATASET_ID (environ world_no_config) = None
   \<and> AUDIT_TABLE_ID (environ world_no_config) = None
   \<and> map (\<lambda>j. fst (snd j)) (load_calls (snd (load_data_to_bigquery world_no_config ev0 ctx0))) =
       [''None.None.100_orders_2024'']
   \<and> map fst (inserts (snd (load_data_to_bigquery world_no_config ev0 ctx0))) =
       [''None.None.None'']
   \<and> fst (load_data_to_bigquery world_no_config ev0 ctx0) = Inr ()"
  by (simp add: handler_defs naming_defs sample_defs)

text \<open>
  Claim C9, amended: an absent configuration value does not stop the handler. Each of the
  three values enters the table identifiers as an f-string field, so an absent one
  appears as the text \<open>None\<close>; the load job is submitted and the audit row inserted under
  the identifiers built that way, and the only faults the handler raises are those of
  the client calls.
\<close>

theorem absent_configuration_is_rendered_not_rejected:
  assumes "event ''bucket'' = Some b" and "event ''name'' = Some n"
  shows "map (\<lambda>j. fst (snd j)) (load_calls (snd (load_data_to_bigquery w event ctxt))) =
           [(case os_getenv (environ w) ''PROJECT_ID'' of None \<Rightarrow> ''None'' | Some p \<Rightarrow> p)
            @ ''.''
            @ (case os_getenv (environ w) ''DATASET_ID'' of None \<Rightarrow> ''None'' | Some d \<Rightarrow> d)
            @ ''.100_'' @ table_name n]
       \<and> map fst (inserts (snd (load_data_to_bigquery w event ctxt))) =
           [(case os_getenv (environ w) ''PROJECT_ID'' of None \<Rightarrow> ''None'' | Some p \<Rightarrow> p)
            @ ''.''
            @ (case os_getenv (environ w) ''DATASET_ID'' of None \<Rightarrow> ''None'' | Some d \<Rightarrow> d)
            @ ''.''
            @ (case os_getenv (environ w) ''AUDIT_TABLE_ID'' of None \<Rightarrow> ''None'' | Some a \<Rightarrow> a)]
       \<and> (fst (load_data_to_bigquery w event ctxt) = Inr ()
          \<or> (\<exists>f. fst (load_data_to_bigquery w event ctxt) = Inl (ClientError f)))"
proof -
  have render: "fstr x = (case x of None \<Rightarrow> ''None'' | Some v \<Rightarrow> v)" for x
    by (cases x) simp_all
  have "map (\<lambda>j. fst (snd j)) (load_calls (snd (load_data_to_bigquery w event ctxt))) =
          [table_ref (environ w) n]"
    by (simp add: handler_effects[OF assms] audit_fields before_finally_frame)
  moreover have "map fst (inserts (snd (load_data_to_bigquery w event ctxt))) =
          [audit_table_ref (environ w)]"
    by (simp add: handler_effects[OF assms] audit_fields before_finally_frame)
  moreover have "fst (load_data_to_bigquery w event ctxt) = Inr ()
          \<or> (\<exists>f. fst (load_data_to_bigquery w event ctxt) = Inl (ClientError f))"
    by (simp add: handler_outcome[OF assms] split: sum.splits)
  ultimately show ?thesis
    by (simp add: table_ref_def audit_table_ref_def PROJECT_ID_def DATASET_ID_def
          AUDIT_TABLE_ID_def render)
qed

theorem absent_configuration_is_rendered_not_rejected_witness:
  "ev0 ''bucket'' = Some ''b1'' \<and> ev0 ''name'' = Some ''orders 2024.csv''
   \<and> os_getenv (environ world_no_config) ''DATASET_ID'' = None
   \<and> map (\<lambda>j. fst (snd j)) (load_calls (snd (load_data_to_bigquery world_no_config ev0 ctx0))) =
       [''None.None.100_'' @ table_name ''orders 2024.csv'']
   \<and> map fst (inserts (snd (load_data_to_bigquery world_no_config ev0 ctx0))) =
       [''None.None.None'']"
proof -
  have unset: "os_getenv (environ world_no_config) k = None" for k
    by (simp add: world_no_config_def world_ok_def os_getenv_def)
  show ?thesis
    using absent_configuration_is_rendered_not_rejected [OF ev0_keys, of world_no_config ctx0]
    by (simp add: ev0_keys unset)
qed

end
